theory Spec2Isabelle
  imports Main "HOL-Library.AList"
begin

section \<open>Values held by a row and values of the serialised form\<close>

text \<open>
  \<^verbatim>\<open>DataRow.ColumnTypes = (boolean|null|number|string|Date|DataTable|undefined)\<close>.
  The row logic only stores, copies and compares numbers, so the number type is the
  parameter \<open>'n\<close> (the one number the code writes itself is the literal \<open>0\<close> in
  \<open>clear\<close>). A \<open>Date\<close> is represented by its time value, which is what
  \<open>getTime()\<close> returns. \<open>DataTable\<close> is an opaque collaborator: the parameter \<open>'t\<close>.
\<close>

datatype ('n, 't) ColumnTypes =
    Undefined
  | Null
  | Boolean bool
  | Number 'n
  | String string
  | Date 'n
  | DataTable 't

text \<open>
  The field values of \<^verbatim>\<open>DataRow.JSON\<close>: primitives, a nested object
  (\<^verbatim>\<open>DataTable.JSON\<close>) or an array (\<^verbatim>\<open>Array<DataRow.JSON>\<close>).
\<close>

datatype 'n JSON =
    JNull
  | JBoolean bool
  | JNumber 'n
  | JString string
  | JArray "'n JSON list"
  | JObject "(string \<times> 'n JSON) list"

section \<open>Plain objects\<close>

text \<open>
  A plain JavaScript object is the list of its own enumerable properties in the order
  they were created. Assigning to an existing key keeps its place, assigning to a new
  key appends, \<open>delete\<close> removes the key; reading an absent key gives \<open>undefined\<close>.
  The key \<open>__proto__\<close> is the accessor that every plain object inherits: an
  assignment to it creates no own property (see \<open>prop_assign\<close>).
  (The prototype itself, the values read from properties it provides, and the special
  position of integer-like keys in the enumeration order are outside this model.)
\<close>

type_synonym ('n, 't) Columns = "(string \<times> ('n, 't) ColumnTypes) list"

definition Object_keys :: "(string \<times> 'v) list \<Rightarrow> string list" where
  "Object_keys obj = map fst obj"

definition prop_get :: "('n, 't) Columns \<Rightarrow> string \<Rightarrow> ('n, 't) ColumnTypes" where
  "prop_get obj key = (case map_of obj key of None \<Rightarrow> Undefined | Some v \<Rightarrow> v)"

definition prop_set :: "(string \<times> 'v) list \<Rightarrow> string \<Rightarrow> 'v \<Rightarrow> (string \<times> 'v) list" where
  "prop_set obj key v = AList.update key v obj"

text \<open>
  \<open>obj[key] = v\<close>. For the key \<open>__proto__\<close> the inherited setter takes the value: a
  primitive is ignored and an object or \<open>null\<close> replaces the prototype, so in either
  case the own properties stay as they are. Every other key is created or overwritten
  as an own property. (The prototype is not represented: what an assignment to
  \<open>__proto__\<close> does after the prototype has been replaced by \<open>null\<close>, when the setter
  is no longer inherited, is outside this model.)
\<close>

definition prop_assign :: "(string \<times> 'v) list \<Rightarrow> string \<Rightarrow> 'v \<Rightarrow> (string \<times> 'v) list" where
  "prop_assign obj key v = (if key = ''__proto__'' then obj else prop_set obj key v)"

definition prop_delete :: "(string \<times> 'v) list \<Rightarrow> string \<Rightarrow> (string \<times> 'v) list" where
  "prop_delete obj key = AList.delete key obj"

section \<open>The store, the row and the events\<close>

text \<open>
  The payload of an event: \<open>{ columnKey, columnValue }\<close> for the column events,
  \<open>{}\<close> for the row events. An event object is the payload extended with its type.
\<close>

datatype ('n, 't) EventArguments =
    ColumnArguments string "('n, 't) ColumnTypes"
  | NoArguments

datatype ('n, 't) EventObject = EventObject string "('n, 't) EventArguments"

fun columnKey_of :: "('n, 't) EventObject \<Rightarrow> string" where
  "columnKey_of (EventObject ty (ColumnArguments k v)) = k"
| "columnKey_of (EventObject ty NoArguments) = []"

text \<open>
  Column objects are mutated in place and shared by reference, so they live in a store:
  \<open>objects\<close> maps an address to the object there and \<open>next_addr\<close> is the first address
  not yet allocated. \<open>fired\<close> is the sequence of events published so far.
\<close>

type_synonym addr = nat

record ('n, 't) World =
  objects :: "addr \<Rightarrow> ('n, 't) Columns"
  next_addr :: addr
  fired :: "('n, 't) EventObject list"

text \<open>
  The fields of a \<open>DataRow\<close> instance: \<open>columns\<close> (a reference), \<open>id\<close> (named \<open>row_id\<close>
  here) and the listeners that \<open>addEvent\<close> keeps on the instance. The \<open>converter\<close> field
  is only forwarded to by the \<open>getColumnAs...\<close> getters and is left out.
  A listener is represented by its answer to an event: \<open>True\<close> when it cancels the
  default action. Listeners that themselves change the row while they run are outside
  this model.
\<close>

type_synonym ('n, 't) Listener = "('n, 't) EventObject \<Rightarrow> bool"

record ('n, 't) DataRow =
  columns :: addr
  row_id :: string
  hcEvents :: "(string \<times> ('n, 't) Listener) list"

definition new_object :: "('n, 't) Columns \<Rightarrow> ('n, 't) World \<Rightarrow> addr \<times> ('n, 't) World" where
  "new_object obj w =
     (next_addr w, w\<lparr>objects := (objects w)(next_addr w := obj), next_addr := Suc (next_addr w)\<rparr>)"

definition assign :: "addr \<Rightarrow> string \<Rightarrow> ('n, 't) ColumnTypes \<Rightarrow> ('n, 't) World \<Rightarrow> ('n, 't) World" where
  "assign a key v w = w\<lparr>objects := (objects w)(a := prop_assign (objects w a) key v)\<rparr>"

definition remove :: "addr \<Rightarrow> string \<Rightarrow> ('n, 't) World \<Rightarrow> ('n, 't) World" where
  "remove a key w = w\<lparr>objects := (objects w)(a := prop_delete (objects w a) key)\<rparr>"

subsection \<open>Collaborators from \<open>Core/Utilities\<close>\<close>

text \<open>
  Modelled from the spec: \<open>merge\<close>, the deep-copy utility of \<open>Core/Utilities\<close>, which is
  not among the sources. It returns a new object with the entries of its argument.
  (Dates and tables are immutable values in this model, so copying them by reference or
  by value is the same.)
\<close>

definition merge :: "addr \<Rightarrow> ('n, 't) World \<Rightarrow> addr \<times> ('n, 't) World" where
  "merge a w = new_object (objects w a) w"

text \<open>
  Modelled from the spec: \<open>addEvent\<close>, the \<open>subscribe(target, eventName, listener)\<close>
  of the Notifier in \<open>Core/Utilities\<close>, which is not among the sources. It registers
  the listener on the target for the event name.
\<close>

definition addEvent ::
  "('n, 't) DataRow \<Rightarrow> string \<Rightarrow> ('n, 't) Listener \<Rightarrow> ('n, 't) DataRow" where
  "addEvent el type fn = el\<lparr>hcEvents := hcEvents el @ [(type, fn)]\<rparr>"

text \<open>
  Modelled from the spec: the veto of the Notifier. An event is vetoed when a listener
  registered on the target for its name cancels it.
\<close>

definition defaultPrevented :: "('n, 't) DataRow \<Rightarrow> ('n, 't) EventObject \<Rightarrow> bool" where
  "defaultPrevented el e =
     (case e of EventObject type args \<Rightarrow> list_ex (\<lambda>(t, fn). t = type \<and> fn e) (hcEvents el))"

text \<open>
  Modelled from the spec: \<open>fireEvent\<close>, the
  \<open>publish(target, eventName, payload, defaultAction)\<close> of the Notifier in
  \<open>Core/Utilities\<close>, which is not among the sources. It notifies the listeners
  registered on the target for that event name; the default action executes
  synchronously unless a listener vetoes the event. The default actions of the row are
  closures over the local variable \<open>succeeded\<close>, so they transform the pair of that
  variable and the world.
\<close>

type_synonym ('n, 't) Frame = "bool \<times> ('n, 't) World"

definition fireEvent ::
  "('n, 't) DataRow \<Rightarrow> string \<Rightarrow> ('n, 't) EventArguments \<Rightarrow>
   (('n, 't) EventObject \<Rightarrow> ('n, 't) Frame \<Rightarrow> ('n, 't) Frame) option \<Rightarrow>
   ('n, 't) Frame \<Rightarrow> ('n, 't) Frame" where
  "fireEvent el type eventArguments defaultFunction st =
     (let e = EventObject type eventArguments;
          st1 = (fst st, (snd st)\<lparr>fired := fired (snd st) @ [e]\<rparr>)
      in case defaultFunction of
           None \<Rightarrow> st1
         | Some f \<Rightarrow> if defaultPrevented el e then st1 else f e st1)"

section \<open>\<open>DataRow\<close>\<close>

subsection \<open>Constructor\<close>

text \<open>
  \<open>constructor(columns = {}, converter = new DataConverter())\<close>. The argument is a
  reference to the caller's object, or absent. \<open>uniqueKey\<close> stands for the string that
  the identity generator returns when it is called.
\<close>

definition new_DataRow ::
  "addr option \<Rightarrow> string \<Rightarrow> ('n, 't) World \<Rightarrow> ('n, 't) DataRow \<times> ('n, 't) World" where
  "new_DataRow columns_arg uniqueKey w =
     (let (arg, w0) = (case columns_arg of None \<Rightarrow> new_object [] w | Some a \<Rightarrow> (a, w));
          (cols, w1) = merge arg w0;
          ident = (case prop_get (objects w1 cols) ''id'' of String s \<Rightarrow> s | _ \<Rightarrow> uniqueKey);
          w2 = remove cols ''id'' w1
      in (\<lparr>columns = cols, row_id = ident, hcEvents = []\<rparr>, w2))"

subsection \<open>Reading\<close>

definition getAllColumns :: "('n, 't) DataRow \<Rightarrow> ('n, 't) World \<Rightarrow> addr \<times> ('n, 't) World" where
  "getAllColumns row w = merge (columns row) w"

definition getColumn :: "('n, 't) DataRow \<Rightarrow> string \<Rightarrow> ('n, 't) World \<Rightarrow> ('n, 't) ColumnTypes" where
  "getColumn row columnKey w = prop_get (objects w (columns row)) columnKey"

definition getColumnKeys :: "('n, 't) DataRow \<Rightarrow> ('n, 't) World \<Rightarrow> string list" where
  "getColumnKeys row w = Object_keys (objects w (columns row))"

definition getColumnCount :: "('n, 't) DataRow \<Rightarrow> ('n, 't) World \<Rightarrow> nat" where
  "getColumnCount row w = length (getColumnKeys row w)"

subsection \<open>Mutators\<close>

text \<open>
  Each mutator returns \<open>succeeded\<close>, the instance and the world after the call.
  None of them assigns a field of the instance.
\<close>

definition clear ::
  "('n::zero, 't) DataRow \<Rightarrow> ('n, 't) World \<Rightarrow> bool \<times> ('n, 't) DataRow \<times> ('n, 't) World" where
  "clear row w =
     (let (succeeded, w') =
            fireEvent row ''clearRow'' NoArguments
              (Some (\<lambda>e (s, w1).
                 fireEvent row ''afterClearRow'' NoArguments None
                   (True, assign (columns row) ''length'' (Number 0) w1)))
              (False, w)
      in (succeeded, row, w'))"

definition deleteColumn ::
  "('n, 't) DataRow \<Rightarrow> string \<Rightarrow> ('n, 't) World \<Rightarrow> bool \<times> ('n, 't) DataRow \<times> ('n, 't) World" where
  "deleteColumn row columnKey w =
     (let columnValue = prop_get (objects w (columns row)) columnKey
      in if columnKey = ''id'' then (False, row, w)
         else
           (let (succeeded, w') =
                  fireEvent row ''deleteColumn'' (ColumnArguments columnKey columnValue)
                    (Some (\<lambda>e (s, w1).
                       fireEvent row ''afterDeleteColumn'' (ColumnArguments columnKey columnValue) None
                         (True, remove (columns row) (columnKey_of e) w1)))
                    (False, w)
            in (succeeded, row, w')))"

definition insertColumn ::
  "('n, 't) DataRow \<Rightarrow> string \<Rightarrow> ('n, 't) ColumnTypes \<Rightarrow> ('n, 't) World \<Rightarrow>
   bool \<times> ('n, 't) DataRow \<times> ('n, 't) World" where
  "insertColumn row columnKey columnValue w =
     (if columnKey = ''id'' \<or> columnKey \<in> set (getColumnKeys row w) then (False, row, w)
      else
        (let (succeeded, w') =
               fireEvent row ''insertColumn'' (ColumnArguments columnKey columnValue)
                 (Some (\<lambda>e (s, w1).
                    fireEvent row ''afterInsertColumn'' (ColumnArguments columnKey columnValue) None
                      (True, assign (columns row) columnKey columnValue w1)))
                 (False, w)
         in (succeeded, row, w')))"

definition updateColumn ::
  "('n, 't) DataRow \<Rightarrow> string \<Rightarrow> ('n, 't) ColumnTypes \<Rightarrow> ('n, 't) World \<Rightarrow>
   bool \<times> ('n, 't) DataRow \<times> ('n, 't) World" where
  "updateColumn row columnKey columnValue w =
     (if columnKey = ''id'' then (False, row, w)
      else
        (let (succeeded, w') =
               fireEvent row ''updateColumn'' (ColumnArguments columnKey columnValue)
                 (Some (\<lambda>e (s, w1).
                    fireEvent row ''afterUpdateColumn'' (ColumnArguments columnKey columnValue) None
                      (True, assign (columns row) columnKey columnValue w1)))
                 (False, w)
         in (succeeded, row, w')))"

subsection \<open>Subscription\<close>

text \<open>
  \<open>on\<close> forwards to \<open>addEvent\<close>, which registers the callback on the instance. The
  function that \<open>addEvent\<close> returns for unsubscribing is not represented.
\<close>

definition on :: "('n, 't) DataRow \<Rightarrow> string \<Rightarrow> ('n, 't) Listener \<Rightarrow> ('n, 't) DataRow" where
  "on row event callback = addEvent row event callback"

subsection \<open>Serialisation\<close>

text \<open>
  \<open>toJSON\<close> takes the copy that \<open>getAllColumns\<close> returns and writes one field per
  column into an object that starts with the class name and the \<open>id\<close>. The keys
  written are the own keys of the copy, and each becomes an own field of the result.
  \<open>tableToJSON\<close> stands for \<open>DataTable.prototype.toJSON\<close>.
\<close>

definition jsonValue :: "('t \<Rightarrow> 'n JSON) \<Rightarrow> ('n, 't) ColumnTypes \<Rightarrow> 'n JSON option" where
  "jsonValue tableToJSON v =
     (case v of
        Null \<Rightarrow> Some JNull
      | Date d \<Rightarrow> Some (JNumber d)
      | DataTable t \<Rightarrow> Some (tableToJSON t)
      | Undefined \<Rightarrow> None
      | Boolean b \<Rightarrow> Some (JBoolean b)
      | Number n \<Rightarrow> Some (JNumber n)
      | String s \<Rightarrow> Some (JString s))"

fun toJSON_loop ::
  "('t \<Rightarrow> 'n JSON) \<Rightarrow> ('n, 't) Columns \<Rightarrow> string list \<Rightarrow>
   (string \<times> 'n JSON) list \<Rightarrow> (string \<times> 'n JSON) list" where
  "toJSON_loop tableToJSON cols [] json = json"
| "toJSON_loop tableToJSON cols (key # columnKeys) json =
     toJSON_loop tableToJSON cols columnKeys
       (case jsonValue tableToJSON (prop_get cols key) of
          None \<Rightarrow> json
        | Some j \<Rightarrow> prop_set json key j)"

definition toJSON ::
  "('t \<Rightarrow> 'n JSON) \<Rightarrow> ('n, 't) DataRow \<Rightarrow> ('n, 't) World \<Rightarrow>
   (string \<times> 'n JSON) list \<times> ('n, 't) World" where
  "toJSON tableToJSON row w =
     (let (cols, w1) = getAllColumns row w;
          columnKeys = Object_keys (objects w1 cols);
          json = [(''_DATA_CLASS_NAME_'', JString ''DataRow''), (''id'', JString (row_id row))]
      in (toJSON_loop tableToJSON (objects w1 cols) columnKeys json, w1))"

text \<open>
  \<open>fromJSON\<close> fills a new object from the fields of \<open>json\<close> and constructs a row from
  it. \<open>keys.pop()\<close> takes the keys from the last to the first, so the loop runs over the
  reversed key list. \<open>tableFromJSON\<close> stands for the static \<open>DataTable.fromJSON\<close> that
  \<open>DataJSON.getClass('DataTable')\<close> gives.
\<close>

definition isInternal :: "string \<Rightarrow> bool" where
  "isInternal key = (case key of [] \<Rightarrow> False | c # cs \<Rightarrow> c = CHR ''_'')"

definition columnValue_of :: "('n JSON \<Rightarrow> 't) \<Rightarrow> 'n JSON option \<Rightarrow> ('n, 't) ColumnTypes" where
  "columnValue_of tableFromJSON value =
     (case value of
        None \<Rightarrow> Undefined
      | Some (JArray rows) \<Rightarrow>
          DataTable (tableFromJSON
            (JObject [(''_DATA_CLASS_NAME_'', JString ''DataTable''), (''rows'', JArray rows)]))
      | Some (JObject members) \<Rightarrow> DataTable (tableFromJSON (JObject members))
      | Some JNull \<Rightarrow> Null
      | Some (JBoolean b) \<Rightarrow> Boolean b
      | Some (JNumber n) \<Rightarrow> Number n
      | Some (JString s) \<Rightarrow> String s)"

fun fromJSON_loop ::
  "('n JSON \<Rightarrow> 't) \<Rightarrow> (string \<times> 'n JSON) list \<Rightarrow> string list \<Rightarrow> addr \<Rightarrow>
   ('n, 't) World \<Rightarrow> ('n, 't) World" where
  "fromJSON_loop tableFromJSON json [] cols w = w"
| "fromJSON_loop tableFromJSON json (key # keys) cols w =
     (if isInternal key then fromJSON_loop tableFromJSON json keys cols w
      else fromJSON_loop tableFromJSON json keys cols
             (assign cols key (columnValue_of tableFromJSON (map_of json key)) w))"

definition fromJSON ::
  "('n JSON \<Rightarrow> 't) \<Rightarrow> string \<Rightarrow> (string \<times> 'n JSON) list \<Rightarrow> ('n, 't) World \<Rightarrow>
   ('n, 't) DataRow \<times> ('n, 't) World" where
  "fromJSON tableFromJSON uniqueKey json w =
     (let keys = Object_keys json;
          (cols, w1) = new_object [] w;
          w2 = fromJSON_loop tableFromJSON json (rev keys) cols w1
      in new_DataRow (Some cols) uniqueKey w2)"

section \<open>Notions used by the properties\<close>

text \<open>What a caller can do to a mapping it holds: assign an entry or delete one.\<close>

datatype ('n, 't) Mutation = Assign string "('n, 't) ColumnTypes" | Delete string

fun mutate :: "addr \<Rightarrow> ('n, 't) Mutation list \<Rightarrow> ('n, 't) World \<Rightarrow> ('n, 't) World" where
  "mutate a [] w = w"
| "mutate a (Assign key v # ms) w = mutate a ms (assign a key v w)"
| "mutate a (Delete key # ms) w = mutate a ms (remove a key w)"

text \<open>
  \<open>lifetime ident row w\<close>: the row was constructed with identity \<open>ident\<close> and has since
  gone through any sequence of its own operations, ending as \<open>row\<close> in world \<open>w\<close>.
\<close>

inductive lifetime :: "string \<Rightarrow> ('n::zero, 't) DataRow \<Rightarrow> ('n, 't) World \<Rightarrow> bool" where
  constructed:
    "new_DataRow columns_arg uniqueKey w = (row, w') \<Longrightarrow> lifetime (row_id row) row w'"
| inserted:
    "lifetime ident row w \<Longrightarrow> insertColumn row key v w = (ok, row', w') \<Longrightarrow> lifetime ident row' w'"
| updated:
    "lifetime ident row w \<Longrightarrow> updateColumn row key v w = (ok, row', w') \<Longrightarrow> lifetime ident row' w'"
| deleted:
    "lifetime ident row w \<Longrightarrow> deleteColumn row key w = (ok, row', w') \<Longrightarrow> lifetime ident row' w'"
| cleared:
    "lifetime ident row w \<Longrightarrow> clear row w = (ok, row', w') \<Longrightarrow> lifetime ident row' w'"
| subscribed:
    "lifetime ident row w \<Longrightarrow> lifetime ident (on row event callback) w"
| copied:
    "lifetime ident row w \<Longrightarrow> getAllColumns row w = (a, w') \<Longrightarrow> lifetime ident row w'"

text \<open>The column values that the serialised form carries unchanged.\<close>

definition isPrimitive :: "('n, 't) ColumnTypes \<Rightarrow> bool" where
  "isPrimitive v =
     (case v of Null \<Rightarrow> True | Boolean b \<Rightarrow> True | Number n \<Rightarrow> True | String s \<Rightarrow> True
      | _ \<Rightarrow> False)"

section \<open>Example rows\<close>

text \<open>
  \<open>callerWorld\<close> holds the object literal \<open>{ id: 'x', a: 1 }\<close> at address 0;
  \<open>exampleRow\<close> is \<open>new DataRow({ id: 'x', a: 1 })\<close> and \<open>exampleWorld\<close> the world after
  its construction. Numbers are integers and there are no tables in the examples.
\<close>

definition emptyWorld :: "(int, unit) World" where
  "emptyWorld = \<lparr>objects = (\<lambda>a. []), next_addr = 0, fired = []\<rparr>"

definition callerWorld :: "(int, unit) World" where
  "callerWorld = snd (new_object [(''id'', String ''x''), (''a'', Number 1)] emptyWorld)"

definition exampleRow :: "(int, unit) DataRow" where
  "exampleRow = fst (new_DataRow (Some 0) ''highcharts-0'' callerWorld)"

definition exampleWorld :: "(int, unit) World" where
  "exampleWorld = snd (new_DataRow (Some 0) ''highcharts-0'' callerWorld)"

definition cancel :: "(int, unit) Listener" where
  "cancel e = True"

text \<open>\<open>guardedRow\<close> is \<open>exampleRow\<close> with a cancelling listener on each pre-event.\<close>

definition guardedRow :: "(int, unit) DataRow" where
  "guardedRow =
     on (on (on (on exampleRow ''insertColumn'' cancel) ''updateColumn'' cancel)
           ''deleteColumn'' cancel) ''clearRow'' cancel"

text \<open>
  \<open>fullRow\<close> has a column of every kind. \<open>noTableJSON\<close> and \<open>noTable\<close> stand in for the
  two table conversions where there are no tables.
\<close>

definition fullCallerWorld :: "(int, unit) World" where
  "fullCallerWorld =
     snd (new_object
            [(''id'', String ''y''), (''u'', Undefined), (''n'', Null), (''b'', Boolean True),
             (''a'', Number 1), (''s'', String ''txt''), (''d'', Date 1000), (''t'', DataTable ())]
            emptyWorld)"

definition fullRow :: "(int, unit) DataRow" where
  "fullRow = fst (new_DataRow (Some 0) ''highcharts-1'' fullCallerWorld)"

definition fullWorld :: "(int, unit) World" where
  "fullWorld = snd (new_DataRow (Some 0) ''highcharts-1'' fullCallerWorld)"

definition noTableJSON :: "unit \<Rightarrow> int JSON" where
  "noTableJSON t = JObject []"

definition noTable :: "int JSON \<Rightarrow> unit" where
  "noTable j = ()"

text \<open>
  \<open>roundTripRow tj tf row w\<close> and \<open>roundTripWorld tj tf row w\<close>: the row
  \<open>DataRow.fromJSON(row.toJSON())\<close> and the world after the two calls.
\<close>

definition roundTripRow ::
  "('t \<Rightarrow> 'n JSON) \<Rightarrow> ('n JSON \<Rightarrow> 't) \<Rightarrow> ('n, 't) DataRow \<Rightarrow> ('n, 't) World \<Rightarrow> ('n, 't) DataRow" where
  "roundTripRow tj tf row w =
     fst (fromJSON tf ''highcharts-2'' (fst (toJSON tj row w)) (snd (toJSON tj row w)))"

definition roundTripWorld ::
  "('t \<Rightarrow> 'n JSON) \<Rightarrow> ('n JSON \<Rightarrow> 't) \<Rightarrow> ('n, 't) DataRow \<Rightarrow> ('n, 't) World \<Rightarrow> ('n, 't) World" where
  "roundTripWorld tj tf row w =
     snd (fromJSON tf ''highcharts-2'' (fst (toJSON tj row w)) (snd (toJSON tj row w)))"

text \<open>
  \<open>underscoreWorld\<close>: the example world after \<open>insertColumn('_a', true)\<close>;
  \<open>taggedWorld\<close>: the example world after \<open>insertColumn('_DATA_CLASS_NAME_', 'mine')\<close>.
\<close>

definition underscoreWorld :: "(int, unit) World" where
  "underscoreWorld = snd (snd (insertColumn exampleRow ''_a'' (Boolean True) exampleWorld))"




section \<open>How the operations run\<close>

text \<open>
  Each mutator unfolded: the rejection guard, then the answer of the listeners to the
  pre-event, then the default action followed by the post-event.
\<close>

lemma insertColumn_run:
  "insertColumn row k v w =
     (if k = ''id'' \<or> k \<in> set (getColumnKeys row w) then (False, row, w)
      else if defaultPrevented row (EventObject ''insertColumn'' (ColumnArguments k v))
      then (False, row, w\<lparr>fired := fired w @ [EventObject ''insertColumn'' (ColumnArguments k v)]\<rparr>)
      else (True, row,
            w\<lparr>objects := (objects w)(columns row := prop_assign (objects w (columns row)) k v),
              fired := fired w @ [EventObject ''insertColumn'' (ColumnArguments k v),
                                  EventObject ''afterInsertColumn'' (ColumnArguments k v)]\<rparr>))"
  by (simp add: insertColumn_def fireEvent_def assign_def Let_def)

lemma updateColumn_run:
  "updateColumn row k v w =
     (if k = ''id'' then (False, row, w)
      else if defaultPrevented row (EventObject ''updateColumn'' (ColumnArguments k v))
      then (False, row, w\<lparr>fired := fired w @ [EventObject ''updateColumn'' (ColumnArguments k v)]\<rparr>)
      else (True, row,
            w\<lparr>objects := (objects w)(columns row := prop_assign (objects w (columns row)) k v),
              fired := fired w @ [EventObject ''updateColumn'' (ColumnArguments k v),
                                  EventObject ''afterUpdateColumn'' (ColumnArguments k v)]\<rparr>))"
  by (simp add: updateColumn_def fireEvent_def assign_def Let_def)

lemma deleteColumn_run:
  "deleteColumn row k w =
     (if k = ''id'' then (False, row, w)
      else if defaultPrevented row (EventObject ''deleteColumn'' (ColumnArguments k (getColumn row k w)))
      then (False, row,
            w\<lparr>fired := fired w @ [EventObject ''deleteColumn'' (ColumnArguments k (getColumn row k w))]\<rparr>)
      else (True, row,
            w\<lparr>objects := (objects w)(columns row := prop_delete (objects w (columns row)) k),
              fired := fired w @ [EventObject ''deleteColumn'' (ColumnArguments k (getColumn row k w)),
                                  EventObject ''afterDeleteColumn'' (ColumnArguments k (getColumn row k w))]\<rparr>))"
  by (simp add: deleteColumn_def fireEvent_def remove_def getColumn_def Let_def)

lemma clear_run:
  "clear row w =
     (if defaultPrevented row (EventObject ''clearRow'' NoArguments)
      then (False, row, w\<lparr>fired := fired w @ [EventObject ''clearRow'' NoArguments]\<rparr>)
      else (True, row,
            w\<lparr>objects := (objects w)(columns row := prop_set (objects w (columns row)) ''length'' (Number 0)),
              fired := fired w @ [EventObject ''clearRow'' NoArguments,
                                  EventObject ''afterClearRow'' NoArguments]\<rparr>))"
  by (simp add: clear_def fireEvent_def assign_def prop_assign_def Let_def)

subsection \<open>Properties of plain objects\<close>


lemma keys_prop_set: "set (Object_keys (prop_set obj k v)) = insert k (set (Object_keys obj))"
  using dom_update [of k v obj] by (simp add: Object_keys_def prop_set_def)


lemma keys_prop_assign:
  "set (Object_keys (prop_assign obj k v)) =
     (if k = ''__proto__'' then set (Object_keys obj) else insert k (set (Object_keys obj)))"
  by (simp add: prop_assign_def keys_prop_set)

lemma keys_prop_delete: "set (Object_keys (prop_delete obj k)) = set (Object_keys obj) - {k}"
  by (simp add: Object_keys_def prop_delete_def delete_keys)

lemma prop_delete_absent: "k \<notin> set (Object_keys obj) \<Longrightarrow> prop_delete obj k = obj"
  by (simp add: Object_keys_def prop_delete_def)

lemma prop_get_absent: "k \<notin> set (Object_keys obj) \<Longrightarrow> prop_get obj k = Undefined"
  using map_of_eq_None_iff [of obj k] by (simp add: Object_keys_def prop_get_def)

lemma prop_get_delete:
  "prop_get (prop_delete obj k) k' = (if k' = k then Undefined else prop_get obj k')"
  by (simp add: prop_get_def prop_delete_def delete_conv')

lemma defaultPrevented_on:
  "defaultPrevented (on row ev cb) (EventObject ty args) =
     (defaultPrevented row (EventObject ty args) \<or> (ev = ty \<and> cb (EventObject ty args)))"
  by (auto simp: defaultPrevented_def on_def addEvent_def)

lemma objects_mutate_other: "b \<noteq> a \<Longrightarrow> objects (mutate a ms w) b = objects w b"
proof (induction ms arbitrary: w)
  case Nil
  then show ?case by simp
next
  case (Cons m ms)
  then show ?case by (cases m) (simp_all add: assign_def remove_def)
qed

subsection \<open>The example rows evaluated\<close>

lemma exampleRow_fields:
  "columns exampleRow = Suc 0" "row_id exampleRow = ''x''" "hcEvents exampleRow = []"
  by (simp_all add: exampleRow_def new_DataRow_def merge_def new_object_def remove_def
      callerWorld_def emptyWorld_def prop_get_def prop_delete_def)

lemma exampleWorld_fields:
  "objects exampleWorld (Suc 0) = [(''a'', Number 1)]" "next_addr exampleWorld = 2"
  "fired exampleWorld = []"
  by (simp_all add: exampleWorld_def new_DataRow_def merge_def new_object_def remove_def
      callerWorld_def emptyWorld_def prop_get_def prop_delete_def)

lemma exampleRow_quiet: "\<not> defaultPrevented exampleRow e"
  by (cases e) (simp add: defaultPrevented_def exampleRow_fields)

lemma exampleRow_keys: "getColumnKeys exampleRow exampleWorld = [''a'']"
  by (simp add: getColumnKeys_def Object_keys_def exampleRow_fields exampleWorld_fields)

lemma guardedRow_fields:
  "columns guardedRow = Suc 0" "row_id guardedRow = ''x''"
  by (simp_all add: guardedRow_def on_def addEvent_def exampleRow_fields)

lemma guardedRow_vetoes:
  "defaultPrevented guardedRow (EventObject ''insertColumn'' args)"
  "defaultPrevented guardedRow (EventObject ''updateColumn'' args)"
  "defaultPrevented guardedRow (EventObject ''deleteColumn'' args)"
  "defaultPrevented guardedRow (EventObject ''clearRow'' args)"
  by (simp_all add: guardedRow_def defaultPrevented_on cancel_def)

lemma underscoreWorld_fields:
  "objects underscoreWorld (Suc 0) = [(''a'', Number 1), (''_a'', Boolean True)]"
  "next_addr underscoreWorld = 2"
  by (simp_all add: underscoreWorld_def insertColumn_run exampleRow_quiet exampleRow_keys
      exampleRow_fields exampleWorld_fields prop_assign_def prop_set_def)


lemma fullRow_fields:
  "columns fullRow = Suc 0" "row_id fullRow = ''y''"
  by (simp_all add: fullRow_def new_DataRow_def merge_def new_object_def remove_def
      fullCallerWorld_def emptyWorld_def prop_get_def prop_delete_def)

lemma fullWorld_fields:
  "objects fullWorld (Suc 0) =
     [(''u'', Undefined), (''n'', Null), (''b'', Boolean True), (''a'', Number 1),
      (''s'', String ''txt''), (''d'', Date 1000), (''t'', DataTable ())]"
  by (simp add: fullWorld_def new_DataRow_def merge_def new_object_def remove_def
      fullCallerWorld_def emptyWorld_def prop_get_def prop_delete_def)

lemma fullRow_columns:
  "getColumn fullRow ''_DATA_CLASS_NAME_'' fullWorld = Undefined"
  "getColumn fullRow ''u'' fullWorld = Undefined"
  "getColumn fullRow ''n'' fullWorld = Null"
  "getColumn fullRow ''b'' fullWorld = Boolean True"
  "getColumn fullRow ''a'' fullWorld = Number 1"
  "getColumn fullRow ''s'' fullWorld = String ''txt''"
  "getColumn fullRow ''d'' fullWorld = Date 1000"
  "getColumn fullRow ''t'' fullWorld = DataTable ()"
  by (simp_all add: getColumn_def prop_get_def fullRow_fields fullWorld_fields)

lemma fullRow_keys:
  "getColumnKeys fullRow fullWorld = [''u'', ''n'', ''b'', ''a'', ''s'', ''d'', ''t'']"
  by (simp add: getColumnKeys_def Object_keys_def fullRow_fields fullWorld_fields)

subsection \<open>Construction\<close>

lemma new_DataRow_keys:
  "new_DataRow columns_arg uniqueKey w = (row, w') \<Longrightarrow> ''id'' \<notin> set (getColumnKeys row w')"
  by (auto simp: new_DataRow_def merge_def new_object_def remove_def getColumnKeys_def
      keys_prop_delete Let_def split: option.splits prod.splits)

lemma new_DataRow_allocated:
  "new_DataRow columns_arg uniqueKey w = (row, w') \<Longrightarrow> columns row < next_addr w'"
  by (auto simp: new_DataRow_def merge_def new_object_def remove_def Let_def
      split: option.splits prod.splits)

lemma allocation_kept:
  assumes "columns row < next_addr w"
  shows "columns row < next_addr (snd (snd (insertColumn row k v w)))"
    and "columns row < next_addr (snd (snd (updateColumn row k v w)))"
    and "columns row < next_addr (snd (snd (deleteColumn row k w)))"
    and "columns row < next_addr (snd (snd (clear row w)))"
    and "columns row < next_addr (snd (getAllColumns row w))"
  using assms
  by (simp_all add: insertColumn_run updateColumn_run deleteColumn_run clear_run
      getAllColumns_def merge_def new_object_def)

lemma new_DataRow_Some:
  assumes "new_DataRow (Some a) u w = (row, w')"
  shows "objects w' (columns row) = prop_delete (objects w a) ''id''"
    and "row_id row = (case prop_get (objects w a) ''id'' of String s \<Rightarrow> s | _ \<Rightarrow> u)"
  using assms
  by (auto simp: new_DataRow_def merge_def new_object_def remove_def Let_def)

lemma getColumn_absent:
  "k \<notin> set (getColumnKeys row w) \<Longrightarrow> getColumn row k w = Undefined"
  by (simp add: getColumn_def getColumnKeys_def prop_get_absent)

subsection \<open>Serialisation\<close>

text \<open>
  The field that \<open>toJSON\<close> gives for a key: the encoding of the column if there is one,
  otherwise what the initial object holds. The column that \<open>fromJSON\<close> gives for a
  key: the decoding of the field, for the keys of \<open>json\<close> that are neither internal
  nor \<open>id\<close>.
\<close>

lemma toJSON_loop_map_of:
  "map_of (toJSON_loop tj cols keys json) k =
     (if k \<in> set keys
      then (case jsonValue tj (prop_get cols k) of None \<Rightarrow> map_of json k | Some j \<Rightarrow> Some j)
      else map_of json k)"
proof (induction keys arbitrary: json)
  case Nil
  then show ?case by simp
next
  case (Cons key keys)
  then show ?case
    by (auto simp: prop_set_def update_conv' split: option.splits)
qed

lemma jsonValue_Undefined: "jsonValue tj Undefined = None"
  by (simp add: jsonValue_def)

lemma toJSON_map_of:
  assumes "toJSON tj row w = (json, w1)"
  shows "map_of json k =
           (case jsonValue tj (getColumn row k w) of
              Some j \<Rightarrow> Some j
            | None \<Rightarrow> map_of [(''_DATA_CLASS_NAME_'', JString ''DataRow''),
                                (''id'', JString (row_id row))] k)"
proof -
  let ?obj = "objects w (columns row)"
  let ?init = "[(''_DATA_CLASS_NAME_'', JString ''DataRow''), (''id'', JString (row_id row))]"
  from assms have json: "json = toJSON_loop tj ?obj (Object_keys ?obj) ?init"
    by (auto simp: toJSON_def getAllColumns_def merge_def new_object_def Let_def)
  show ?thesis
  proof (cases "k \<in> set (Object_keys ?obj)")
    case True
    then show ?thesis
      unfolding json toJSON_loop_map_of getColumn_def by (simp split: option.splits)
  next
    case False
    then have "prop_get ?obj k = Undefined" by (rule prop_get_absent)
    with False show ?thesis
      unfolding json toJSON_loop_map_of getColumn_def by (simp add: jsonValue_Undefined)
  qed
qed

lemma fromJSON_loop_map_of:
  "map_of (objects (fromJSON_loop tf json ks cols w) cols) k =
     (if k \<in> set ks \<and> \<not> isInternal k then Some (columnValue_of tf (map_of json k))
      else map_of (objects w cols) k)"
proof (induction ks arbitrary: w)
  case Nil
  then show ?case by simp
next
  case (Cons key ks)
  then show ?case
    by (auto simp: assign_def prop_assign_def prop_set_def update_conv' isInternal_def)
qed

lemma fromJSON_columns:
  assumes "fromJSON tf u json w = (row2, w2)"
  shows "getColumn row2 k w2 =
           (if k = ''id'' \<or> isInternal k \<or> k \<notin> set (Object_keys json) then Undefined
            else columnValue_of tf (map_of json k))"
    and "row_id row2 =
           (case (if ''id'' \<in> set (Object_keys json) then columnValue_of tf (map_of json ''id'')
                  else Undefined) of String s \<Rightarrow> s | _ \<Rightarrow> u)"
    and "k \<in> set (getColumnKeys row2 w2) \<longleftrightarrow>
           k \<noteq> ''id'' \<and> \<not> isInternal k \<and> k \<in> set (Object_keys json)"
proof -
  let ?w1 = "snd (new_object [] w)"
  let ?c = "next_addr w"
  let ?w' = "fromJSON_loop tf json (rev (Object_keys json)) ?c ?w1"
  from assms have n: "new_DataRow (Some ?c) u ?w' = (row2, w2)"
    by (simp add: fromJSON_def new_object_def Let_def)
  have filled: "map_of (objects ?w' ?c) k' =
      (if k' \<in> set (Object_keys json) \<and> \<not> isInternal k' then Some (columnValue_of tf (map_of json k'))
       else None)" for k'
    by (simp add: fromJSON_loop_map_of new_object_def)
  have pg: "prop_get (objects ?w' ?c) k' =
      (if k' \<in> set (Object_keys json) \<and> \<not> isInternal k' then columnValue_of tf (map_of json k')
       else Undefined)" for k'
    by (simp add: prop_get_def filled)
  have obj: "objects w2 (columns row2) = prop_delete (objects ?w' ?c) ''id''"
    using n by (rule new_DataRow_Some(1))
  show "getColumn row2 k w2 =
           (if k = ''id'' \<or> isInternal k \<or> k \<notin> set (Object_keys json) then Undefined
            else columnValue_of tf (map_of json k))"
    by (simp add: getColumn_def obj prop_get_delete pg)
  have internal: "\<not> isInternal ''id''" by (simp add: isInternal_def)
  show "row_id row2 =
           (case (if ''id'' \<in> set (Object_keys json) then columnValue_of tf (map_of json ''id'')
                  else Undefined) of String s \<Rightarrow> s | _ \<Rightarrow> u)"
    using new_DataRow_Some(2) [OF n] by (simp add: pg internal)
  have "k \<in> set (getColumnKeys row2 w2) \<longleftrightarrow> k \<noteq> ''id'' \<and> k \<in> set (Object_keys (objects ?w' ?c))"
    by (auto simp: getColumnKeys_def obj keys_prop_delete)
  also have "k \<in> set (Object_keys (objects ?w' ?c)) \<longleftrightarrow> map_of (objects ?w' ?c) k \<noteq> None"
    using map_of_eq_None_iff [of "objects ?w' ?c" k] by (simp add: Object_keys_def)
  also have "\<dots> \<longleftrightarrow> k \<in> set (Object_keys json) \<and> \<not> isInternal k"
    by (simp add: filled)
  finally show "k \<in> set (getColumnKeys row2 w2) \<longleftrightarrow>
           k \<noteq> ''id'' \<and> \<not> isInternal k \<and> k \<in> set (Object_keys json)"
    by blast
qed

section \<open>Rejection of the key \<open>id\<close>\<close>

text \<open>
  C3. For every row and every value, \<open>insertColumn("id", v)\<close>, \<open>updateColumn("id", v)\<close>
  and \<open>deleteColumn("id")\<close> return \<open>false\<close>; the instance and the whole world, with its
  column objects and its sequence of published events, are what they were before.
\<close>

theorem id_key_rejected:
  "insertColumn row ''id'' v w = (False, row, w) \<and>
   updateColumn row ''id'' v w = (False, row, w) \<and>
   deleteColumn row ''id'' w = (False, row, w)"
  by (simp add: insertColumn_def updateColumn_def deleteColumn_def)

section \<open>The identity invariant\<close>

text \<open>
  C4. Whatever sequence of operations a row has gone through since its construction
  (\<open>insertColumn\<close>, \<open>updateColumn\<close>, \<open>deleteColumn\<close>, \<open>clear\<close>, and also \<open>on\<close> and
  \<open>getAllColumns\<close>), the key \<open>id\<close> is not among \<open>getColumnKeys()\<close> and the \<open>id\<close> field is
  the one set at construction.
\<close>

theorem id_invariant:
  "lifetime ident row w \<Longrightarrow> ''id'' \<notin> set (getColumnKeys row w) \<and> row_id row = ident"
proof (induction rule: lifetime.induct)
  case (constructed columns_arg uniqueKey w row w')
  then show ?case by (simp add: new_DataRow_keys)
next
  case (inserted ident row w key v ok row' w')
  then show ?case
    by (auto simp: insertColumn_run getColumnKeys_def keys_prop_assign split: if_splits)
next
  case (updated ident row w key v ok row' w')
  then show ?case
    by (auto simp: updateColumn_run getColumnKeys_def keys_prop_assign split: if_splits)
next
  case (deleted ident row w key ok row' w')
  then show ?case
    by (auto simp: deleteColumn_run getColumnKeys_def keys_prop_delete split: if_splits)
next
  case (cleared ident row w ok row' w')
  then show ?case
    by (auto simp: clear_run getColumnKeys_def keys_prop_set split: if_splits)
next
  case (subscribed ident row w event callback)
  then show ?case by (simp add: on_def addEvent_def getColumnKeys_def)
next
  case (copied ident row w a w')
  then show ?case
    by (auto simp: getAllColumns_def merge_def new_object_def getColumnKeys_def)
qed

text \<open>The invariant at the example row after an insertion and a \<open>clear\<close>.\<close>

theorem id_invariant_witness:
  "lifetime ''x'' exampleRow
     (snd (snd (clear exampleRow (snd (snd (insertColumn exampleRow ''b'' Null exampleWorld)))))) \<and>
   ''id'' \<notin> set (getColumnKeys exampleRow
     (snd (snd (clear exampleRow (snd (snd (insertColumn exampleRow ''b'' Null exampleWorld))))))) \<and>
   row_id exampleRow = ''x''"
proof -
  let ?w1 = "snd (snd (insertColumn exampleRow ''b'' Null exampleWorld))"
  let ?w2 = "snd (snd (clear exampleRow ?w1))"
  have "new_DataRow (Some 0) ''highcharts-0'' callerWorld = (exampleRow, exampleWorld)"
    by (simp add: exampleRow_def exampleWorld_def)
  then have "lifetime (row_id exampleRow) exampleRow exampleWorld"
    by (rule lifetime.constructed)
  then have l0: "lifetime ''x'' exampleRow exampleWorld"
    by (simp add: exampleRow_fields)
  have "insertColumn exampleRow ''b'' Null exampleWorld = (True, exampleRow, ?w1)"
    by (simp add: insertColumn_run exampleRow_quiet exampleRow_keys)
  with l0 have l1: "lifetime ''x'' exampleRow ?w1"
    by (rule lifetime.inserted)
  have "clear exampleRow ?w1 = (True, exampleRow, ?w2)"
    by (simp add: clear_run exampleRow_quiet)
  with l1 have l2: "lifetime ''x'' exampleRow ?w2"
    by (rule lifetime.cleared)
  show ?thesis
    using l2 id_invariant [OF l2] by simp
qed

section \<open>Insertion\<close>




section \<open>Update of an absent key\<close>




section \<open>Deletion of an absent key\<close>

text \<open>
  C7. For a key other than \<open>id\<close> that is not present, and with no listener vetoing the
  pre-event, \<open>deleteColumn(k)\<close> returns \<open>true\<close>; it publishes \<open>deleteColumn\<close> and then
  \<open>afterDeleteColumn\<close>, both carrying the key and the value \<open>undefined\<close>, and the column
  objects of the world are unchanged.
\<close>

theorem delete_absent_succeeds:
  assumes "k \<noteq> ''id''" and "k \<notin> set (getColumnKeys row w)"
    and "\<not> defaultPrevented row (EventObject ''deleteColumn'' (ColumnArguments k Undefined))"
  shows "deleteColumn row k w =
           (True, row,
            w\<lparr>fired := fired w @ [EventObject ''deleteColumn'' (ColumnArguments k Undefined),
                                  EventObject ''afterDeleteColumn'' (ColumnArguments k Undefined)]\<rparr>)"
proof -
  have absent: "getColumn row k w = Undefined"
    using assms(2) by (simp add: getColumn_def getColumnKeys_def prop_get_absent)
  have same: "prop_delete (objects w (columns row)) k = objects w (columns row)"
    using assms(2) by (simp add: getColumnKeys_def prop_delete_absent)
  show ?thesis
    using assms(1,3) by (simp add: deleteColumn_run absent same)
qed

theorem delete_absent_succeeds_witness:
  "''b'' \<noteq> ''id'' \<and> ''b'' \<notin> set (getColumnKeys exampleRow exampleWorld) \<and>
   \<not> defaultPrevented exampleRow (EventObject ''deleteColumn'' (ColumnArguments ''b'' Undefined)) \<and>
   deleteColumn exampleRow ''b'' exampleWorld =
     (True, exampleRow,
      exampleWorld\<lparr>fired := fired exampleWorld @
         [EventObject ''deleteColumn'' (ColumnArguments ''b'' Undefined),
          EventObject ''afterDeleteColumn'' (ColumnArguments ''b'' Undefined)]\<rparr>)"
proof -
  have h1: "''b'' \<noteq> ''id''" by simp
  have h2: "''b'' \<notin> set (getColumnKeys exampleRow exampleWorld)"
    by (simp add: exampleRow_keys)
  have h3: "\<not> defaultPrevented exampleRow (EventObject ''deleteColumn'' (ColumnArguments ''b'' Undefined))"
    by (rule exampleRow_quiet)
  show ?thesis
    using h1 h2 h3 delete_absent_succeeds [OF h1 h2 h3] by blast
qed

section \<open>Veto\<close>

text \<open>
  C8. After \<open>on('insertColumn', cb)\<close> with a callback that cancels the event,
  \<open>insertColumn(k, v)\<close> with a key that is not present returns \<open>false\<close> and \<open>k\<close> is still
  not among the column keys. In general, when a listener vetoes the pre-event of
  \<open>insertColumn\<close>, \<open>updateColumn\<close>, \<open>deleteColumn\<close> or \<open>clear\<close>, the call returns \<open>false\<close>
  and no column object has changed.
\<close>

theorem vetoed_mutation_not_applied:
  "(cb (EventObject ''insertColumn'' (ColumnArguments k v)) \<longrightarrow>
      k \<notin> set (getColumnKeys row w) \<longrightarrow>
      (case insertColumn (on row ''insertColumn'' cb) k v w of (ok, row', w') \<Rightarrow>
         \<not> ok \<and> k \<notin> set (getColumnKeys row' w'))) \<and>
   (defaultPrevented row (EventObject ''insertColumn'' (ColumnArguments k v)) \<longrightarrow>
      (case insertColumn row k v w of (ok, row', w') \<Rightarrow> \<not> ok \<and> row' = row \<and> objects w' = objects w)) \<and>
   (defaultPrevented row (EventObject ''updateColumn'' (ColumnArguments k v)) \<longrightarrow>
      (case updateColumn row k v w of (ok, row', w') \<Rightarrow> \<not> ok \<and> row' = row \<and> objects w' = objects w)) \<and>
   (defaultPrevented row (EventObject ''deleteColumn'' (ColumnArguments k (getColumn row k w))) \<longrightarrow>
      (case deleteColumn row k w of (ok, row', w') \<Rightarrow> \<not> ok \<and> row' = row \<and> objects w' = objects w)) \<and>
   (defaultPrevented row (EventObject ''clearRow'' NoArguments) \<longrightarrow>
      (case clear row w of (ok, row', w') \<Rightarrow> \<not> ok \<and> row' = row \<and> objects w' = objects w))"
proof -
  have "case insertColumn (on row ''insertColumn'' cb) k v w of (ok, row', w') \<Rightarrow>
          \<not> ok \<and> k \<notin> set (getColumnKeys row' w')"
    if "cb (EventObject ''insertColumn'' (ColumnArguments k v))" and "k \<notin> set (getColumnKeys row w)"
  proof -
    have cols: "columns (on row ''insertColumn'' cb) = columns row"
      by (simp add: on_def addEvent_def)
    show ?thesis
      using that by (auto simp: insertColumn_run defaultPrevented_on getColumnKeys_def cols)
  qed
  moreover have "case insertColumn row k v w of (ok, row', w') \<Rightarrow> \<not> ok \<and> row' = row \<and> objects w' = objects w"
    if "defaultPrevented row (EventObject ''insertColumn'' (ColumnArguments k v))"
    using that by (simp add: insertColumn_run)
  moreover have "case updateColumn row k v w of (ok, row', w') \<Rightarrow> \<not> ok \<and> row' = row \<and> objects w' = objects w"
    if "defaultPrevented row (EventObject ''updateColumn'' (ColumnArguments k v))"
    using that by (simp add: updateColumn_run)
  moreover have "case deleteColumn row k w of (ok, row', w') \<Rightarrow> \<not> ok \<and> row' = row \<and> objects w' = objects w"
    if "defaultPrevented row (EventObject ''deleteColumn'' (ColumnArguments k (getColumn row k w)))"
    using that by (simp add: deleteColumn_run)
  moreover have "case clear row w of (ok, row', w') \<Rightarrow> \<not> ok \<and> row' = row \<and> objects w' = objects w"
    if "defaultPrevented row (EventObject ''clearRow'' NoArguments)"
    using that by (simp add: clear_run)
  ultimately show ?thesis by blast
qed

theorem vetoed_mutation_not_applied_witness:
  "cancel (EventObject ''insertColumn'' (ColumnArguments ''b'' Null)) \<and>
   ''b'' \<notin> set (getColumnKeys guardedRow exampleWorld) \<and>
   defaultPrevented guardedRow (EventObject ''insertColumn'' (ColumnArguments ''b'' Null)) \<and>
   defaultPrevented guardedRow (EventObject ''updateColumn'' (ColumnArguments ''b'' Null)) \<and>
   defaultPrevented guardedRow
     (EventObject ''deleteColumn'' (ColumnArguments ''b'' (getColumn guardedRow ''b'' exampleWorld))) \<and>
   defaultPrevented guardedRow (EventObject ''clearRow'' NoArguments) \<and>
   \<not> fst (insertColumn (on guardedRow ''insertColumn'' cancel) ''b'' Null exampleWorld) \<and>
   \<not> fst (insertColumn guardedRow ''b'' Null exampleWorld) \<and>
   \<not> fst (updateColumn guardedRow ''b'' Null exampleWorld) \<and>
   \<not> fst (deleteColumn guardedRow ''b'' exampleWorld) \<and>
   \<not> fst (clear guardedRow exampleWorld)"
proof -
  have h1: "cancel (EventObject ''insertColumn'' (ColumnArguments ''b'' Null))"
    by (simp add: cancel_def)
  have h2: "''b'' \<notin> set (getColumnKeys guardedRow exampleWorld)"
    by (simp add: getColumnKeys_def Object_keys_def guardedRow_fields exampleWorld_fields)
  show ?thesis
    using h1 h2 guardedRow_vetoes
      vetoed_mutation_not_applied [of cancel "''b''" Null guardedRow exampleWorld]
    by (auto split: prod.splits)
qed

section \<open>\<open>getAllColumns\<close> returns a copy\<close>

text \<open>
  C9. \<open>getAllColumns()\<close> returns a new object with the entries of the row's columns.
  Whatever entries the caller then assigns or deletes in the returned object, the row's
  own column object is as before, and so is every \<open>getColumn\<close> result. (The
  constructor allocates the row's column object and the operations keep it allocated:
  \<open>new_DataRow_allocated\<close>, \<open>allocation_kept\<close>.)
\<close>

theorem getAllColumns_is_a_copy:
  assumes "columns row < next_addr w" and "getAllColumns row w = (a, w1)"
  shows "a \<noteq> columns row \<and>
         objects w1 a = objects w (columns row) \<and>
         objects (mutate a ms w1) (columns row) = objects w (columns row) \<and>
         getColumn row k (mutate a ms w1) = getColumn row k w"
proof -
  from assms(2) have a: "a = next_addr w"
    and w1: "w1 = w\<lparr>objects := (objects w)(next_addr w := objects w (columns row)),
                    next_addr := Suc (next_addr w)\<rparr>"
    by (auto simp: getAllColumns_def merge_def new_object_def)
  from a assms(1) have ne: "columns row \<noteq> a" by simp
  have kept: "objects (mutate a ms w1) (columns row) = objects w1 (columns row)"
    using ne by (rule objects_mutate_other)
  have old: "objects w1 (columns row) = objects w (columns row)"
    using ne by (simp add: w1 a)
  have copy: "objects w1 a = objects w (columns row)"
    by (simp add: w1 a)
  show ?thesis
    using ne kept old copy by (simp add: getColumn_def)
qed

theorem getAllColumns_is_a_copy_witness:
  "columns exampleRow < next_addr exampleWorld \<and>
   getAllColumns exampleRow exampleWorld = (2, snd (getAllColumns exampleRow exampleWorld)) \<and>
   getColumn exampleRow ''a''
     (mutate 2 [Assign ''a'' (String ''changed''), Delete ''a'', Assign ''b'' Null]
        (snd (getAllColumns exampleRow exampleWorld))) = Number 1"
proof -
  have h1: "columns exampleRow < next_addr exampleWorld"
    by (simp add: exampleRow_fields exampleWorld_fields)
  have h2: "getAllColumns exampleRow exampleWorld = (2, snd (getAllColumns exampleRow exampleWorld))"
    by (simp add: getAllColumns_def merge_def new_object_def exampleWorld_fields)
  have "getColumn exampleRow ''a'' exampleWorld = Number 1"
    by (simp add: getColumn_def prop_get_def exampleRow_fields exampleWorld_fields)
  then show ?thesis
    using h1 h2 getAllColumns_is_a_copy [OF h1 h2, of "[Assign ''a'' (String ''changed''), Delete ''a'', Assign ''b'' Null]" "''a''"]
    by simp
qed

section \<open>\<open>clear\<close>\<close>

text \<open>
  C1. \<open>clear\<close> assigns \<open>row.columns.length = 0\<close>. The columns are a plain object, not
  an array, so this creates a column \<open>length\<close> with value \<open>0\<close> and removes nothing:
  on the row \<open>{ id: 'x', a: 1 }\<close>, with no listener, \<open>clear()\<close> returns \<open>true\<close> and
  afterwards the column keys are \<open>a\<close> and \<open>length\<close> and \<open>getColumnCount()\<close> is 2.
\<close>

theorem clear_keeps_columns:
  "fst (clear exampleRow exampleWorld) = True \<and>
   getColumnKeys exampleRow exampleWorld = [''a''] \<and>
   getColumnKeys exampleRow (snd (snd (clear exampleRow exampleWorld))) = [''a'', ''length''] \<and>
   getColumnCount exampleRow (snd (snd (clear exampleRow exampleWorld))) = 2"
  by (simp add: clear_run exampleRow_quiet exampleRow_fields exampleWorld_fields prop_set_def
      getColumnCount_def getColumnKeys_def Object_keys_def)

text \<open>On any row, a \<open>clear\<close> that is not vetoed keeps every key and adds \<open>length\<close>.\<close>

lemma clear_adds_length:
  "\<not> defaultPrevented row (EventObject ''clearRow'' NoArguments) \<Longrightarrow>
   set (getColumnKeys row (snd (snd (clear row w)))) = insert ''length'' (set (getColumnKeys row w))"
  by (simp add: clear_run getColumnKeys_def keys_prop_set)

section \<open>\<open>toJSON\<close>\<close>




section \<open>Round trip through \<open>toJSON\<close> and \<open>fromJSON\<close>\<close>

text \<open>
  C2, as the claim states it, fails on a row with a column whose key starts with \<open>_\<close>:
  \<open>fromJSON\<close> skips such keys. The example row after \<open>insertColumn('_a', true)\<close> has
  the columns \<open>a\<close> and \<open>_a\<close>, both primitive; the row that comes back from the round
  trip has the column \<open>a\<close> only.
\<close>

theorem round_trip_underscore_counterexample:
  "getColumnKeys exampleRow underscoreWorld = [''a'', ''_a''] \<and>
   getColumn exampleRow ''a'' underscoreWorld = Number 1 \<and>
   getColumn exampleRow ''_a'' underscoreWorld = Boolean True \<and>
   getColumnKeys (roundTripRow noTableJSON noTable exampleRow underscoreWorld)
     (roundTripWorld noTableJSON noTable exampleRow underscoreWorld) = [''a''] \<and>
   getColumn (roundTripRow noTableJSON noTable exampleRow underscoreWorld) ''_a''
     (roundTripWorld noTableJSON noTable exampleRow underscoreWorld) = Undefined"
proof -
  have json: "toJSON noTableJSON exampleRow underscoreWorld =
      ([(''_DATA_CLASS_NAME_'', JString ''DataRow''), (''id'', JString ''x''),
        (''a'', JNumber 1), (''_a'', JBoolean True)],
       underscoreWorld\<lparr>objects := (objects underscoreWorld)(2 := objects underscoreWorld (Suc 0)),
                        next_addr := 3\<rparr>)"
    by (simp add: toJSON_def getAllColumns_def merge_def new_object_def Object_keys_def
        exampleRow_fields underscoreWorld_fields prop_get_def prop_set_def jsonValue_def)
  have a: "getColumnKeys exampleRow underscoreWorld = [''a'', ''_a'']"
    "getColumn exampleRow ''a'' underscoreWorld = Number 1"
    "getColumn exampleRow ''_a'' underscoreWorld = Boolean True"
    by (simp_all add: getColumnKeys_def getColumn_def Object_keys_def prop_get_def
        exampleRow_fields underscoreWorld_fields)
  have b: "getColumnKeys (roundTripRow noTableJSON noTable exampleRow underscoreWorld)
     (roundTripWorld noTableJSON noTable exampleRow underscoreWorld) = [''a'']"
    by (simp add: roundTripRow_def roundTripWorld_def json fromJSON_def new_object_def
        Object_keys_def isInternal_def assign_def prop_assign_def prop_set_def columnValue_of_def
        new_DataRow_def merge_def remove_def prop_get_def prop_delete_def getColumnKeys_def
        underscoreWorld_fields)
  have c: "getColumn (roundTripRow noTableJSON noTable exampleRow underscoreWorld) ''_a''
     (roundTripWorld noTableJSON noTable exampleRow underscoreWorld) = Undefined"
    by (simp add: roundTripRow_def roundTripWorld_def json fromJSON_def new_object_def
        Object_keys_def isInternal_def assign_def prop_assign_def prop_set_def columnValue_of_def
        new_DataRow_def merge_def remove_def prop_get_def prop_delete_def getColumn_def
        underscoreWorld_fields)
  show ?thesis using a b c by simp
qed

text \<open>
  C2, amended. For every row (whose column keys do not include \<open>id\<close>),
  \<open>DataRow.fromJSON(row.toJSON())\<close> has the same id. For every key that does not start
  with \<open>_\<close>: a column holding \<open>null\<close>, a boolean, a number or a string comes back with
  the same value, and a column holding a \<open>Date\<close> comes back as the number of its time
  value. If every column of the row holds \<open>null\<close>, a boolean, a number or a string, and
  no column key starts with \<open>_\<close>, the row that comes back has exactly the same column
  keys.
\<close>

theorem round_trip:
  assumes "''id'' \<notin> set (getColumnKeys row w)"
    and "toJSON tj row w = (json, w1)" and "fromJSON tf u json w1 = (row2, w2)"
  shows "row_id row2 = row_id row \<and>
         (\<forall>k. \<not> isInternal k \<longrightarrow>
              (isPrimitive (getColumn row k w) \<longrightarrow> getColumn row2 k w2 = getColumn row k w) \<and>
              (\<forall>d. getColumn row k w = Date d \<longrightarrow> getColumn row2 k w2 = Number d)) \<and>
         ((\<forall>k \<in> set (getColumnKeys row w). \<not> isInternal k \<and> isPrimitive (getColumn row k w)) \<longrightarrow>
            set (getColumnKeys row2 w2) = set (getColumnKeys row w))"
proof -
  note field = toJSON_map_of [OF assms(2)]
  note restored = fromJSON_columns [OF assms(3)]
  have inkeys: "k \<in> set (Object_keys json) \<longleftrightarrow> map_of json k \<noteq> None" for k
    using map_of_eq_None_iff [of json k] by (simp add: Object_keys_def)
  have noid: "getColumn row ''id'' w = Undefined"
    using assms(1) by (rule getColumn_absent)
  have idfield: "map_of json ''id'' = Some (JString (row_id row))"
    by (simp add: field [of "''id''"] noid jsonValue_def)
  have ident: "row_id row2 = row_id row"
    by (simp add: restored(2) inkeys idfield columnValue_of_def)
  have plain: "map_of json k = jsonValue tj (getColumn row k w)"
    if "\<not> isInternal k" "k \<noteq> ''id''" for k
    using that by (auto simp: field [of k] isInternal_def split: option.splits)
  have col: "getColumn row2 k w2 =
      (case jsonValue tj (getColumn row k w) of None \<Rightarrow> Undefined
       | Some j \<Rightarrow> columnValue_of tf (Some j))"
    if "\<not> isInternal k" for k
  proof (cases "k = ''id''")
    case True
    then show ?thesis by (simp add: restored(1) noid jsonValue_def)
  next
    case False
    with that show ?thesis
      by (auto simp: restored(1) inkeys plain split: option.splits)
  qed
  have prim: "getColumn row2 k w2 = getColumn row k w"
    if "\<not> isInternal k" "isPrimitive (getColumn row k w)" for k
    using that(2) unfolding col [OF that(1)]
    by (cases "getColumn row k w") (simp_all add: isPrimitive_def jsonValue_def columnValue_of_def)
  have date: "getColumn row2 k w2 = Number d"
    if "\<not> isInternal k" "getColumn row k w = Date d" for k d
    unfolding col [OF that(1)] by (simp add: that(2) jsonValue_def columnValue_of_def)
  have keys: "set (getColumnKeys row2 w2) = set (getColumnKeys row w)"
    if all: "\<forall>k \<in> set (getColumnKeys row w). \<not> isInternal k \<and> isPrimitive (getColumn row k w)"
  proof (rule set_eqI)
    fix k
    show "k \<in> set (getColumnKeys row2 w2) \<longleftrightarrow> k \<in> set (getColumnKeys row w)"
    proof
      assume "k \<in> set (getColumnKeys row2 w2)"
      then have k: "k \<noteq> ''id''" "\<not> isInternal k" "map_of json k \<noteq> None"
        by (simp_all add: restored(3) inkeys)
      then have "jsonValue tj (getColumn row k w) \<noteq> None"
        by (simp add: plain)
      then have "getColumn row k w \<noteq> Undefined"
        by (auto simp: jsonValue_def)
      then show "k \<in> set (getColumnKeys row w)"
        using getColumn_absent by blast
    next
      assume mem: "k \<in> set (getColumnKeys row w)"
      with all have k: "\<not> isInternal k" "isPrimitive (getColumn row k w)" by simp_all
      from mem assms(1) have "k \<noteq> ''id''" by auto
      moreover from k(2) have "jsonValue tj (getColumn row k w) \<noteq> None"
        by (cases "getColumn row k w") (simp_all add: isPrimitive_def jsonValue_def)
      ultimately show "k \<in> set (getColumnKeys row2 w2)"
        using k(1) by (simp add: restored(3) inkeys plain)
    qed
  qed
  show ?thesis
    using ident prim date keys by blast
qed

theorem round_trip_witness:
  "''id'' \<notin> set (getColumnKeys exampleRow exampleWorld) \<and>
   getColumnKeys exampleRow exampleWorld = [''a''] \<and>
   \<not> isInternal ''a'' \<and>
   isPrimitive (getColumn exampleRow ''a'' exampleWorld) \<and>
   row_id (roundTripRow noTableJSON noTable exampleRow exampleWorld) = ''x'' \<and>
   getColumn (roundTripRow noTableJSON noTable exampleRow exampleWorld) ''a''
     (roundTripWorld noTableJSON noTable exampleRow exampleWorld) = Number 1 \<and>
   set (getColumnKeys (roundTripRow noTableJSON noTable exampleRow exampleWorld)
          (roundTripWorld noTableJSON noTable exampleRow exampleWorld)) = {''a''} \<and>
   ''id'' \<notin> set (getColumnKeys fullRow fullWorld) \<and>
   \<not> isInternal ''d'' \<and>
   getColumn fullRow ''d'' fullWorld = Date 1000 \<and>
   getColumn (roundTripRow noTableJSON noTable fullRow fullWorld) ''d''
     (roundTripWorld noTableJSON noTable fullRow fullWorld) = Number 1000"
proof -
  have ser: "toJSON noTableJSON row w = (fst (toJSON noTableJSON row w), snd (toJSON noTableJSON row w))"
    for row :: "(int, unit) DataRow" and w
    by simp
  have deser: "fromJSON noTable ''highcharts-2'' (fst (toJSON noTableJSON row w)) (snd (toJSON noTableJSON row w)) =
      (roundTripRow noTableJSON noTable row w, roundTripWorld noTableJSON noTable row w)"
    for row :: "(int, unit) DataRow" and w
    by (simp add: roundTripRow_def roundTripWorld_def)
  have e1: "''id'' \<notin> set (getColumnKeys exampleRow exampleWorld)"
    by (simp add: exampleRow_keys)
  have e2: "\<not> isInternal ''a''" "\<not> isInternal ''d''"
    by (simp_all add: isInternal_def)
  have e3: "getColumn exampleRow ''a'' exampleWorld = Number 1"
    by (simp add: getColumn_def prop_get_def exampleRow_fields exampleWorld_fields)
  then have e4: "isPrimitive (getColumn exampleRow ''a'' exampleWorld)"
    by (simp add: isPrimitive_def)
  have f1: "''id'' \<notin> set (getColumnKeys fullRow fullWorld)"
    by (simp add: fullRow_keys)
  note ex = round_trip [OF e1 ser deser]
  note full = round_trip [OF f1 ser deser]
  have "row_id (roundTripRow noTableJSON noTable exampleRow exampleWorld) = ''x''"
    using ex by (simp add: exampleRow_fields)
  moreover have "getColumn (roundTripRow noTableJSON noTable exampleRow exampleWorld) ''a''
     (roundTripWorld noTableJSON noTable exampleRow exampleWorld) = Number 1"
    using ex e2(1) e4 e3 by metis
  moreover have "set (getColumnKeys (roundTripRow noTableJSON noTable exampleRow exampleWorld)
          (roundTripWorld noTableJSON noTable exampleRow exampleWorld)) = {''a''}"
    using ex e2(1) e4 by (simp add: exampleRow_keys)
  moreover have "getColumn (roundTripRow noTableJSON noTable fullRow fullWorld) ''d''
     (roundTripWorld noTableJSON noTable fullRow fullWorld) = Number 1000"
    using full e2(2) fullRow_columns(7) by blast
  ultimately show ?thesis
    using e1 e2 e4 f1 fullRow_columns(7) exampleRow_keys by simp
qed

end
